theory Spec2Isabelle
  imports Main "HOL-Library.Char_ord" "HOL-Library.List_Lexorder"
begin

section \<open>Values held in an \<open>interface{}\<close>\<close>

text \<open>
  A grid cell, a filter value and the value \<open>reflect.Value.Interface\<close> returns for a
  struct field are all Go values of the empty interface type. The model keeps the dynamic
  type as the constructor:
  \<^item> \<open>CNil\<close> is the nil interface;
  \<^item> \<open>CString\<close>, \<open>CBool\<close> are Go's \<open>string\<close> and \<open>bool\<close>;
  \<^item> \<open>CInt\<close>, \<open>CUint\<close> are values of the signed and unsigned integer types;
  \<^item> \<open>CFloat\<close> is a \<open>float64\<close> (what the Sheets API delivers for a number);
  \<^item> \<open>COther t\<close> is a value of any other dynamic type, identified by the text \<open>t\<close>
    that \<open>fmt.Sprintf("%v", _)\<close> prints for it, which is all that \<open>table.go\<close> reads
    of such a value outside the JSON branch of \<open>setField\<close>.

  A \<open>float64\<close> is identified with a decimal \<open>(-1)^neg * m * 10^e\<close>: the shortest decimal
  that reads back as that float, which is what \<open>%v\<close> prints. Binary rounding is not
  modelled: \<open>ParseFloat\<close> below returns the exact value of the literal, which is that
  shortest decimal for every literal of at most 15 significant digits within the
  \<open>float64\<close> range. No theorem of this development depends on what happens outside
  that range of literals.
\<close>

datatype float64 = NaN | Inf bool | Fin bool nat int

datatype cell =
    CNil
  | CString string
  | CBool bool
  | CInt int
  | CUint nat
  | CFloat float64
  | COther string

section \<open>The parts of \<open>strconv\<close> and \<open>fmt\<close> that \<open>table.go\<close> calls\<close>

subsection \<open>Decimal integers\<close>

definition digit_char :: "nat \<Rightarrow> char" where
  "digit_char d = char_of (48 + d)"

definition isDigit :: "char \<Rightarrow> bool" where
  "isDigit c = (CHR ''0'' \<le> c \<and> c \<le> CHR ''9'')"

definition digit_val :: "char \<Rightarrow> nat" where
  "digit_val c = of_char c - 48"

text \<open>\<open>strconv.FormatUint(n, 10)\<close>, which is what \<open>%v\<close> prints for an unsigned integer.\<close>

function FormatUint :: "nat \<Rightarrow> string" where
  "FormatUint n =
     (if n < 10 then [digit_char n] else FormatUint (n div 10) @ [digit_char (n mod 10)])"
  by pat_completeness auto
termination
  by (relation "measure id") auto

declare FormatUint.simps [simp del]

definition FormatInt :: "int \<Rightarrow> string" where
  "FormatInt i = (if i < 0 then CHR ''-'' # FormatUint (nat (- i)) else FormatUint (nat i))"

text \<open>
  The digit loop of \<open>strconv.ParseUint\<close> in base 10: every byte must be a decimal digit
  (an underscore is a digit separator only for base 0).
\<close>

fun parse_digits :: "nat \<Rightarrow> string \<Rightarrow> nat option" where
  "parse_digits n [] = Some n"
| "parse_digits n (c # cs) =
     (if isDigit c then parse_digits (n * 10 + digit_val c) cs else None)"

text \<open>
  \<open>strconv.ParseUint(s, 10, 64)\<close> and \<open>strconv.ParseInt(s, 10, 64)\<close>. \<open>None\<close> stands for
  a non-nil error of either kind (syntax or range): the callers only test \<open>err == nil\<close>.
\<close>

definition ParseUint :: "string \<Rightarrow> nat option" where
  "ParseUint s =
     (if s = [] then None
      else case parse_digits 0 s of
             None \<Rightarrow> None
           | Some n \<Rightarrow> if n < 2 ^ 64 then Some n else None)"

definition ParseInt :: "string \<Rightarrow> int option" where
  "ParseInt s =
     (case s of
        [] \<Rightarrow> None
      | c # cs \<Rightarrow>
          (let neg = (c = CHR ''-'');
               rest = (if c = CHR ''+'' \<or> c = CHR ''-'' then cs else s)
           in case ParseUint rest of
                None \<Rightarrow> None
              | Some un \<Rightarrow>
                  if \<not> neg \<and> un \<ge> 2 ^ 63 then None
                  else if neg \<and> un > 2 ^ 63 then None
                  else Some (if neg then - int un else int un)))"

subsection \<open>Booleans\<close>

text \<open>
  \<open>strconv.ParseBool\<close> accepts exactly twelve spellings:
  \<open>1, t, T, TRUE, true, True\<close> and \<open>0, f, F, FALSE, false, False\<close>.
\<close>

definition ParseBool :: "string \<Rightarrow> bool option" where
  "ParseBool str =
     (if str \<in> {''1'', ''t'', ''T'', ''TRUE'', ''true'', ''True''} then Some True
      else if str \<in> {''0'', ''f'', ''F'', ''FALSE'', ''false'', ''False''} then Some False
      else None)"

subsection \<open>Floating point\<close>

text \<open>
  \<open>lower\<close> is the ASCII lower-casing of one byte. \<open>strconv\<close> writes \<open>c | ('x' - 'X')\<close>
  and compares the result with a lower-case letter only, which is the same test.
\<close>

definition lower :: "char \<Rightarrow> char" where
  "lower c = (if CHR ''A'' \<le> c \<and> c \<le> CHR ''Z'' then char_of (of_char c + (32::nat)) else c)"

definition isHexLetter :: "char \<Rightarrow> bool" where
  "isHexLetter c = (CHR ''a'' \<le> lower c \<and> lower c \<le> CHR ''f'')"

text \<open>\<open>commonPrefixLenIgnoreCase(s, prefix)\<close>, for a lower-case \<open>prefix\<close>.\<close>

fun commonPrefixLenIgnoreCase :: "string \<Rightarrow> string \<Rightarrow> nat" where
  "commonPrefixLenIgnoreCase (c # cs) (p # ps) =
     (if lower c = p then Suc (commonPrefixLenIgnoreCase cs ps) else 0)"
| "commonPrefixLenIgnoreCase _ _ = 0"

text \<open>
  \<open>special\<close>: the infinities and NaN, with the number of bytes consumed. A sign is only
  accepted before \<open>inf\<close> or \<open>infinity\<close>.
\<close>

definition special_inf :: "bool \<Rightarrow> nat \<Rightarrow> string \<Rightarrow> (float64 \<times> nat) option" where
  "special_inf neg nsign s =
     (let n0 = commonPrefixLenIgnoreCase s ''infinity'';
          n = (if 3 < n0 \<and> n0 < 8 then 3 else n0)
      in if n = 3 \<or> n = 8 then Some (Inf neg, nsign + n) else None)"

definition special :: "string \<Rightarrow> (float64 \<times> nat) option" where
  "special s =
     (case s of
        [] \<Rightarrow> None
      | c # cs \<Rightarrow>
          if c = CHR ''+'' \<or> c = CHR ''-'' then special_inf (c = CHR ''-'') 1 cs
          else if c = CHR ''i'' \<or> c = CHR ''I'' then special_inf False 0 s
          else if c = CHR ''n'' \<or> c = CHR ''N'' then
            (if commonPrefixLenIgnoreCase s ''nan'' = 3 then Some (NaN, 3) else None)
          else None)"

text \<open>
  The mantissa loop of \<open>readFloat\<close>. The state is the mantissa read so far (exactly: Go
  keeps 19 digits and a truncation flag, and rounds correctly from both), the number of
  digits after the point, and the flags \<open>sawdot\<close>, \<open>sawdigits\<close>, \<open>underscores\<close>; the
  result also holds the unread rest of the input.
\<close>

fun readMantissa ::
  "bool \<Rightarrow> string \<Rightarrow> nat \<Rightarrow> nat \<Rightarrow> bool \<Rightarrow> bool \<Rightarrow> bool \<Rightarrow>
   nat \<times> nat \<times> bool \<times> bool \<times> string" where
  "readMantissa hex [] mant frac sawdot sawdigits underscores =
     (mant, frac, sawdigits, underscores, [])"
| "readMantissa hex (c # cs) mant frac sawdot sawdigits underscores =
     (if c = CHR ''_'' then readMantissa hex cs mant frac sawdot sawdigits True
      else if c = CHR ''.'' then
        (if sawdot then (mant, frac, sawdigits, underscores, c # cs)
         else readMantissa hex cs mant frac True sawdigits underscores)
      else if isDigit c then
        readMantissa hex cs (mant * (if hex then 16 else 10) + digit_val c)
          (if sawdot then Suc frac else frac) sawdot True underscores
      else if hex \<and> isHexLetter c then
        readMantissa hex cs (mant * 16 + (of_char (lower c) - 87))
          (if sawdot then Suc frac else frac) sawdot True underscores
      else (mant, frac, sawdigits, underscores, c # cs))"

text \<open>
  The exponent digits: underscores are skipped, and the exponent stops growing at 10000,
  as in \<open>readFloat\<close>.
\<close>

fun readExponent :: "string \<Rightarrow> nat \<Rightarrow> bool \<Rightarrow> nat \<times> bool \<times> string" where
  "readExponent [] e underscores = (e, underscores, [])"
| "readExponent (c # cs) e underscores =
     (if c = CHR ''_'' then readExponent cs e True
      else if isDigit c then
        readExponent cs (if e < 10000 then e * 10 + digit_val c else e) underscores
      else (e, underscores, c # cs))"

text \<open>\<open>underscoreOK\<close>: an underscore must stand between two digits (or after a base prefix).\<close>

fun underscoreScan :: "bool \<Rightarrow> char \<Rightarrow> string \<Rightarrow> bool" where
  "underscoreScan hex i [] = (i \<noteq> CHR ''_'')"
| "underscoreScan hex i (c # cs) =
     (if isDigit c \<or> (hex \<and> isHexLetter c) then underscoreScan hex (CHR ''0'') cs
      else if c = CHR ''_'' then (if i \<noteq> CHR ''0'' then False else underscoreScan hex (CHR ''_'') cs)
      else if i = CHR ''_'' then False
      else underscoreScan hex (CHR ''!'') cs)"

definition underscoreOK :: "string \<Rightarrow> bool" where
  "underscoreOK s =
     (let s1 = (case s of c # cs \<Rightarrow> if c = CHR ''-'' \<or> c = CHR ''+'' then cs else s | [] \<Rightarrow> s)
      in case s1 of
           c0 # c1 # cs \<Rightarrow>
             if c0 = CHR ''0'' \<and> (lower c1 = CHR ''b'' \<or> lower c1 = CHR ''o'' \<or> lower c1 = CHR ''x'')
             then underscoreScan (lower c1 = CHR ''x'') (CHR ''0'') cs
             else underscoreScan False (CHR ''^'') s1
         | _ \<Rightarrow> underscoreScan False (CHR ''^'') s1)"

text \<open>
  \<open>readFloat\<close> on the whole input: sign, optional \<open>0x\<close> prefix, mantissa, exponent
  (\<open>e\<close> for decimal, a mandatory \<open>p\<close> for hexadecimal). The result is
  \<open>(neg, hex, mantissa, exponent)\<close> with value \<open>mantissa * 10^exponent\<close>, or
  \<open>mantissa * 2^exponent\<close> when \<open>hex\<close>. \<open>ParseFloat\<close> rejects input that is not consumed
  to its end, so the model returns \<open>None\<close> as soon as a byte is left over.
\<close>

definition readFloat :: "string \<Rightarrow> (bool \<times> bool \<times> nat \<times> int) option" where
  "readFloat s =
     (case s of
        [] \<Rightarrow> None
      | c # cs \<Rightarrow>
          (let neg = (c = CHR ''-'');
               s1 = (if c = CHR ''+'' \<or> c = CHR ''-'' then cs else s);
               hex = (2 < length s1 \<and> s1 ! 0 = CHR ''0'' \<and> lower (s1 ! 1) = CHR ''x'');
               s2 = (if hex then drop 2 s1 else s1)
           in case readMantissa hex s2 0 0 False False False of
                (mant, frac, sawdigits, us1, rest) \<Rightarrow>
                  if \<not> sawdigits then None
                  else
                    (let dp = - int (if hex then 4 * frac else frac);
                         expChar = (if hex then CHR ''p'' else CHR ''e'')
                     in case rest of
                          [] \<Rightarrow>
                            if hex then None
                            else if us1 \<and> \<not> underscoreOK s then None
                            else Some (neg, hex, mant, dp)
                        | r # rs \<Rightarrow>
                            if lower r \<noteq> expChar then None
                            else
                              (case rs of
                                 [] \<Rightarrow> None
                               | d # ds \<Rightarrow>
                                   (let eneg = (d = CHR ''-'');
                                        rs1 = (if d = CHR ''+'' \<or> d = CHR ''-'' then ds else rs)
                                    in case rs1 of
                                         [] \<Rightarrow> None
                                       | d1 # _ \<Rightarrow>
                                           if \<not> isDigit d1 then None
                                           else
                                             (case readExponent rs1 0 us1 of
                                                (e, us2, rest2) \<Rightarrow>
                                                  if rest2 \<noteq> [] then None
                                                  else if us2 \<and> \<not> underscoreOK s then None
                                                  else Some (neg, hex, mant,
                                                         dp + (if eneg then - int e else int e))))))))"

text \<open>
  From the exact value to the \<open>float64\<close>. A magnitude of at least \<open>2^1024 - 2^970\<close>
  rounds to an infinity, which \<open>ParseFloat\<close> reports as a range error; a magnitude of
  at most \<open>2^-1075\<close> rounds to a zero of the same sign, without an error. Everything
  between is kept as the decimal \<open>m * 10^e\<close> with no trailing zero in \<open>m\<close>.
\<close>

function strip_zeros :: "nat \<Rightarrow> int \<Rightarrow> nat \<times> int" where
  "strip_zeros m e =
     (if m \<noteq> 0 \<and> m mod 10 = 0 then strip_zeros (m div 10) (e + 1) else (m, e))"
  by pat_completeness auto
termination
  by (relation "measure fst") auto

declare strip_zeros.simps [simp del]

definition overflows :: "nat \<Rightarrow> int \<Rightarrow> bool" where
  "overflows m e =
     (if e \<ge> 0 then m * 10 ^ nat e \<ge> 2 ^ 1024 - 2 ^ 970
      else m \<ge> (2 ^ 1024 - 2 ^ 970) * 10 ^ nat (- e))"

definition underflows :: "nat \<Rightarrow> int \<Rightarrow> bool" where
  "underflows m e = (e < 0 \<and> m * 2 ^ 1075 \<le> 10 ^ nat (- e))"

definition decimal_float :: "bool \<Rightarrow> nat \<Rightarrow> int \<Rightarrow> float64 option" where
  "decimal_float neg m e =
     (if m = 0 then Some (Fin neg 0 0)
      else if overflows m e then None
      else if underflows m e then Some (Fin neg 0 0)
      else case strip_zeros m e of (m', e') \<Rightarrow> Some (Fin neg m' e'))"

text \<open>
  \<open>strconv.ParseFloat(s, 64)\<close>; \<open>None\<close> stands for a non-nil error. A hexadecimal
  mantissa \<open>m * 2^k\<close> with \<open>k < 0\<close> is the decimal \<open>m * 5^(-k) * 10^k\<close>.
\<close>

definition ParseFloat :: "string \<Rightarrow> float64 option" where
  "ParseFloat s =
     (case special s of
        Some (v, n) \<Rightarrow> if n = length s then Some v else None
      | None \<Rightarrow>
          (case readFloat s of
             None \<Rightarrow> None
           | Some (neg, hex, mant, e) \<Rightarrow>
               if \<not> hex then decimal_float neg mant e
               else if e \<ge> 0 then decimal_float neg (mant * 2 ^ nat e) 0
               else decimal_float neg (mant * 5 ^ nat (- e)) e))"

text \<open>
  Go's \<open>a < b\<close> on \<open>float64\<close>: false as soon as one side is NaN; the two zeros are
  equal. Finite values are compared after scaling both mantissas to the smaller exponent.
\<close>

definition fin_scaled :: "bool \<Rightarrow> nat \<Rightarrow> int \<Rightarrow> int \<Rightarrow> int" where
  "fin_scaled neg m e e0 = (if neg then - int m else int m) * 10 ^ nat (e - e0)"

fun float_less :: "float64 \<Rightarrow> float64 \<Rightarrow> bool" where
  "float_less NaN _ = False"
| "float_less _ NaN = False"
| "float_less (Inf a) (Inf b) = (a \<and> \<not> b)"
| "float_less (Inf a) (Fin _ _ _) = a"
| "float_less (Fin _ _ _) (Inf b) = (\<not> b)"
| "float_less (Fin n1 m1 e1) (Fin n2 m2 e2) =
     (fin_scaled n1 m1 e1 (min e1 e2) < fin_scaled n2 m2 e2 (min e1 e2))"

text \<open>
  \<open>%v\<close> on a \<open>float64\<close> is \<open>%g\<close> with the shortest digits \<open>ds\<close> (decimal point after
  \<open>dp\<close> of them): exponent form \<open>d.ddde+XX\<close> when the decimal exponent \<open>dp - 1\<close> is below
  \<open>-4\<close> or at least \<open>6\<close>, positional form otherwise.
\<close>

definition fmtE :: "string \<Rightarrow> int \<Rightarrow> string" where
  "fmtE ds x =
     (take 1 ds @ (if length ds > 1 then CHR ''.'' # drop 1 ds else [])
      @ [CHR ''e'', if x < 0 then CHR ''-'' else CHR ''+'']
      @ (if \<bar>x\<bar> < 10 then CHR ''0'' # FormatUint (nat \<bar>x\<bar>) else FormatUint (nat \<bar>x\<bar>)))"

definition fmtF :: "string \<Rightarrow> int \<Rightarrow> string" where
  "fmtF ds dp =
     (if dp \<le> 0 then ''0.'' @ replicate (nat (- dp)) (CHR ''0'') @ ds
      else if dp \<ge> int (length ds) then ds @ replicate (nat dp - length ds) (CHR ''0'')
      else take (nat dp) ds @ CHR ''.'' # drop (nat dp) ds)"

definition FormatFloat :: "float64 \<Rightarrow> string" where
  "FormatFloat f =
     (case f of
        NaN \<Rightarrow> ''NaN''
      | Inf neg \<Rightarrow> (if neg then ''-Inf'' else ''+Inf'')
      | Fin neg m e \<Rightarrow>
          (if neg then ''-'' else []) @
          (if m = 0 then ''0''
           else (let ds = FormatUint m; dp = int (length ds) + e
                 in if dp - 1 < - 4 \<or> dp - 1 \<ge> 6 then fmtE ds (dp - 1) else fmtF ds dp)))"

subsection \<open>\<open>fmt.Sprintf("%v", v)\<close>, \<open>strings.ToLower\<close>, \<open>strings.Contains\<close>\<close>

fun Sprintf_v :: "cell \<Rightarrow> string" where
  "Sprintf_v CNil = ''<nil>''"
| "Sprintf_v (CString s) = s"
| "Sprintf_v (CBool b) = (if b then ''true'' else ''false'')"
| "Sprintf_v (CInt i) = FormatInt i"
| "Sprintf_v (CUint n) = FormatUint n"
| "Sprintf_v (CFloat f) = FormatFloat f"
| "Sprintf_v (COther t) = t"

text \<open>
  \<open>strings.ToLower\<close> on ASCII text (Go also lower-cases the upper-case letters of other
  scripts), and \<open>strings.Contains\<close>.
\<close>

definition ToLower :: "string \<Rightarrow> string" where
  "ToLower s = map lower s"

fun Contains :: "string \<Rightarrow> string \<Rightarrow> bool" where
  "Contains [] substr = (substr = [])"
| "Contains (c # cs) substr = (take (length substr) (c # cs) = substr \<or> Contains cs substr)"

section \<open>Records, struct types and the collaborator\<close>

text \<open>
  Go errors are values built by \<open>fmt.Errorf\<close>: a message, or a message wrapping another
  error (\<open>%w\<close>). A run-time panic is kept apart from a returned error.
\<close>

datatype error = Error string | Wrap string error | Panic string

text \<open>
  What \<open>fmt.Errorf("...: %w", err)\<close> returns when evaluating \<open>err\<close> did not panic; a
  panic unwinds through the caller unchanged.
\<close>

definition wrapError :: "string \<Rightarrow> error \<Rightarrow> error" where
  "wrapError msg err = (case err of Panic p \<Rightarrow> Panic p | _ \<Rightarrow> Wrap msg err)"

text \<open>\<open>reflect.Kind\<close>; \<open>IntKind\<close> is \<open>reflect.Int\<close>.\<close>

datatype kind =
    Invalid | Bool
  | IntKind | Int8 | Int16 | Int32 | Int64
  | Uint | Uint8 | Uint16 | Uint32 | Uint64 | Uintptr
  | Float32 | Float64 | Complex64 | Complex128
  | Array | Chan | Func | Interface | Map | Ptr | Slice | String | Struct | UnsafePointer

text \<open>
  One field of a struct type, as \<open>reflect.StructField\<close> describes it: \<open>Tag\<close> is the value
  of \<open>Tag.Get("quire")\<close> (empty when the field has no such tag), \<open>Exported\<close> says whether
  the field can be read through \<open>Interface\<close> and set. For a field whose kind is not one of
  the scalar kinds below, the type also fixes \<open>OtherZero\<close>, its zero value, and \<open>JsonSet\<close>:
  the value the field holds after \<open>json.Unmarshal(json.Marshal(v), &field)\<close>, given the
  value it held before and \<open>v\<close>. Both depend on the Go type of the field, which is not
  modelled further.
\<close>

record StructField =
  Name :: string
  Tag :: string
  Kind :: kind
  Exported :: bool
  OtherZero :: cell
  JsonSet :: "cell \<Rightarrow> cell \<Rightarrow> cell"

definition isIntKind :: "kind \<Rightarrow> bool" where
  "isIntKind k = (k \<in> {IntKind, Int8, Int16, Int32, Int64})"

definition isUintKind :: "kind \<Rightarrow> bool" where
  "isUintKind k = (k \<in> {Uint, Uint8, Uint16, Uint32, Uint64})"

definition isFloatKind :: "kind \<Rightarrow> bool" where
  "isFloatKind k = (k \<in> {Float32, Float64})"

text \<open>The width of an integer kind; \<open>int\<close> and \<open>uint\<close> are taken as 64 bits wide.\<close>

definition bitSize :: "kind \<Rightarrow> nat" where
  "bitSize k =
     (if k = Int8 \<or> k = Uint8 then 8
      else if k = Int16 \<or> k = Uint16 then 16
      else if k = Int32 \<or> k = Uint32 then 32
      else 64)"

text \<open>The zero value of a field, which \<open>reflect.New(elemType).Elem()\<close> holds.\<close>

definition zeroValue :: "StructField \<Rightarrow> cell" where
  "zeroValue field =
     (if Kind field = String then CString []
      else if Kind field = Bool then CBool False
      else if isIntKind (Kind field) then CInt 0
      else if isUintKind (Kind field) then CUint 0
      else if isFloatKind (Kind field) then CFloat (Fin False 0 0)
      else OtherZero field)"

text \<open>
  A Go value handed over as \<open>record\<close>: a struct (its fields in declaration order, each
  with its current value), a pointer to a value, a nil pointer, or anything else.
\<close>

datatype go_value =
    StructVal "(StructField \<times> cell) list"
  | PtrTo go_value
  | NilPtr
  | Plain cell

text \<open>
  The collaborator, the \<open>SheetsClient\<close> behind \<open>t.db.client\<close>: each method is a function
  of the collaborator's state \<open>'s\<close>. A run threads a world: the calls issued so far, in
  order, and the collaborator's state.
\<close>

datatype call =
    ReadCall string
  | WriteCall string "cell list list"
  | AppendCall string "cell list list"
  | DeleteRowsCall string "int list"

record 's SheetsClient =
  Read :: "string \<Rightarrow> 's \<Rightarrow> (error + cell list list) \<times> 's"
  Write :: "string \<Rightarrow> cell list list \<Rightarrow> 's \<Rightarrow> error option \<times> 's"
  Append :: "string \<Rightarrow> cell list list \<Rightarrow> 's \<Rightarrow> error option \<times> 's"
  DeleteRows :: "string \<Rightarrow> int list \<Rightarrow> 's \<Rightarrow> error option \<times> 's"

type_synonym 's world = "call list \<times> 's"

record 's Table =
  client :: "'s SheetsClient"
  name :: string

definition clientRead ::
  "'s Table \<Rightarrow> string \<Rightarrow> 's world \<Rightarrow> (error + cell list list) \<times> 's world" where
  "clientRead t range0 w =
     (case Read (client t) range0 (snd w) of
        (res, s') \<Rightarrow> (res, (fst w @ [ReadCall range0], s')))"

definition clientWrite ::
  "'s Table \<Rightarrow> string \<Rightarrow> cell list list \<Rightarrow> 's world \<Rightarrow> error option \<times> 's world" where
  "clientWrite t range0 values w =
     (case Write (client t) range0 values (snd w) of
        (res, s') \<Rightarrow> (res, (fst w @ [WriteCall range0 values], s')))"

definition clientDeleteRows ::
  "'s Table \<Rightarrow> string \<Rightarrow> int list \<Rightarrow> 's world \<Rightarrow> error option \<times> 's world" where
  "clientDeleteRows t sheetName rowIndices w =
     (case DeleteRows (client t) sheetName rowIndices (snd w) of
        (res, s') \<Rightarrow> (res, (fst w @ [DeleteRowsCall sheetName rowIndices], s')))"

record Filter =
  Column :: string
  Operator :: string
  Value :: cell

record 's Query =
  table :: "'s Table"
  filters :: "Filter list"
  limit :: int
  orderBy :: string
  descending :: bool

text \<open>
  Go's \<open>int\<close> is a 64-bit two's complement integer: \<open>rowIndex + 2\<close> wraps around.
\<close>

definition wrap64 :: "int \<Rightarrow> int" where
  "wrap64 x = (x + 2 ^ 63) mod 2 ^ 64 - 2 ^ 63"

section \<open>\<open>table.go\<close>\<close>

subsection \<open>Column letters\<close>

text \<open>
  The loop of \<open>columnIndexToLetter\<close>, entered with \<open>index \<ge> 0\<close>. Inside the loop
  \<open>index\<close> is not negative, where Go's truncating \<open>/\<close> and \<open>%\<close> are \<open>div\<close> and \<open>mod\<close>.
  Nothing in the loop can overflow, so the function on Go's \<open>int\<close> is the restriction of
  this one to the indices below \<open>2^63\<close>.
\<close>

function columnIndexToLetter_loop :: "int \<Rightarrow> string \<Rightarrow> string" where
  "columnIndexToLetter_loop index result =
     (if index \<ge> 0
      then columnIndexToLetter_loop (index div 26 - 1) (char_of (65 + index mod 26) # result)
      else result)"
  by pat_completeness auto
termination
  by (relation "measure (\<lambda>(index, result). nat (index + 1))") auto

declare columnIndexToLetter_loop.simps [simp del]

definition columnIndexToLetter :: "int \<Rightarrow> string" where
  "columnIndexToLetter index =
     (if index < 0 then ''A'' else columnIndexToLetter_loop index [])"

subsection \<open>Predicates\<close>

text \<open>
  The header loop that \<open>matchesFilter\<close>, \<open>matchesFilters\<close> and \<open>scanRow\<close> each spell out:
  the first position whose cell equals the column name. \<open>h == column\<close> compares an
  interface value with a string, which holds only for a cell of dynamic type \<open>string\<close>
  with that very text. \<open>None\<close> is \<open>colIdx == -1\<close>.
\<close>

fun columnIndex :: "cell list \<Rightarrow> string \<Rightarrow> nat option" where
  "columnIndex [] column = None"
| "columnIndex (h # headers) column =
     (if h = CString column then Some 0
      else case columnIndex headers column of None \<Rightarrow> None | Some i \<Rightarrow> Some (Suc i))"

definition compareValues :: "cell \<Rightarrow> cell \<Rightarrow> int" where
  "compareValues a b =
     (let aStr = Sprintf_v a; bStr = Sprintf_v b
      in case (ParseFloat aStr, ParseFloat bStr) of
           (Some aNum, Some bNum) \<Rightarrow>
             if float_less aNum bNum then - 1
             else if float_less bNum aNum then 1
             else 0
         | _ \<Rightarrow>
             if aStr < bStr then - 1
             else if aStr > bStr then 1
             else 0)"

definition matchesOperator :: "cell \<Rightarrow> string \<Rightarrow> cell \<Rightarrow> bool" where
  "matchesOperator c op v =
     (let cellStr = Sprintf_v c; valueStr = Sprintf_v v
      in if op = ''='' \<or> op = ''=='' then cellStr = valueStr
         else if op = ''!='' then cellStr \<noteq> valueStr
         else if op = ''>'' then compareValues c v > 0
         else if op = ''>='' then compareValues c v \<ge> 0
         else if op = ''<'' then compareValues c v < 0
         else if op = ''<='' then compareValues c v \<le> 0
         else if op = ''contains'' \<or> op = ''like'' then
           Contains (ToLower cellStr) (ToLower valueStr)
         else False)"

definition matchesFilter :: "cell list \<Rightarrow> cell list \<Rightarrow> Filter \<Rightarrow> bool" where
  "matchesFilter row headers f =
     (case columnIndex headers (Column f) of
        None \<Rightarrow> False
      | Some colIdx \<Rightarrow>
          if colIdx \<ge> length row then False
          else matchesOperator (row ! colIdx) (Operator f) (Value f))"

text \<open>\<open>Query.matchesFilters\<close>, as a function of the filter list \<open>q.filters\<close>.\<close>

fun matchesFilters :: "Filter list \<Rightarrow> cell list \<Rightarrow> cell list \<Rightarrow> bool" where
  "matchesFilters [] row headers = True"
| "matchesFilters (f # fs) row headers =
     (case columnIndex headers (Column f) of
        None \<Rightarrow> False
      | Some colIdx \<Rightarrow>
          if colIdx \<ge> length row then False
          else if \<not> matchesOperator (row ! colIdx) (Operator f) (Value f) then False
          else matchesFilters fs row headers)"

subsection \<open>The query builder and its pipeline\<close>

text \<open>
  \<open>NewQuery t\<close> is \<open>t.Query()\<close>; the builder methods take the query last, so that
  \<open>q.Where(c, op, v).Limit(n)\<close> reads \<open>Limit n (Where c op v q)\<close>.
\<close>

definition NewQuery :: "'s Table \<Rightarrow> 's Query" where
  "NewQuery t = \<lparr>table = t, filters = [], limit = 0, orderBy = [], descending = False\<rparr>"

definition Where :: "string \<Rightarrow> string \<Rightarrow> cell \<Rightarrow> 's Query \<Rightarrow> 's Query" where
  "Where column operator v q =
     q\<lparr>filters := filters q @ [\<lparr>Column = column, Operator = operator, Value = v\<rparr>]\<rparr>"

definition Limit :: "int \<Rightarrow> 's Query \<Rightarrow> 's Query" where
  "Limit n q = q\<lparr>limit := n\<rparr>"


definition applyFilters :: "'s Query \<Rightarrow> cell list list \<Rightarrow> cell list \<Rightarrow> cell list list" where
  "applyFilters q rows headers =
     (if length (filters q) = 0 then rows
      else filter (\<lambda>row. matchesFilters (filters q) row headers) rows)"

definition applySort :: "'s Query \<Rightarrow> cell list list \<Rightarrow> cell list \<Rightarrow> cell list list" where
  "applySort q rows headers = rows"

definition applyLimit :: "'s Query \<Rightarrow> cell list list \<Rightarrow> cell list list" where
  "applyLimit q rows =
     (if limit q > 0 \<and> limit q < int (length rows) then take (nat (limit q)) rows
      else rows)"

subsection \<open>The record codec\<close>

text \<open>
  The field loop of \<open>structToValues\<close>, with \<open>result\<close> as accumulator. A field tagged
  \<open>-\<close> is skipped before it is read; \<open>field.Interface()\<close> panics on an unexported field.
\<close>

fun structToValues_loop :: "(StructField \<times> cell) list \<Rightarrow> cell list \<Rightarrow> error + cell list" where
  "structToValues_loop [] result = Inr result"
| "structToValues_loop ((fieldType, field) # rest) result =
     (if Tag fieldType = ''-'' then structToValues_loop rest result
      else if \<not> Exported fieldType then
        Inl (Panic ''reflect.Value.Interface: cannot return value obtained from unexported field or method'')
      else structToValues_loop rest (result @ [field]))"

text \<open>
  \<open>structToValues\<close>: one pointer is followed (\<open>v.Elem()\<close>; for a nil pointer this is the
  invalid \<open>Value\<close>), and what is found must be a struct.
\<close>

definition structToValues :: "go_value \<Rightarrow> error + cell list" where
  "structToValues record =
     (case (case record of PtrTo v \<Rightarrow> Some v | NilPtr \<Rightarrow> None | _ \<Rightarrow> Some record) of
        Some (StructVal flds) \<Rightarrow> structToValues_loop flds []
      | _ \<Rightarrow> Inl (Error ''record must be a struct''))"

text \<open>
  \<open>reflect.Value.SetInt\<close> and \<open>SetUint\<close> store the 64-bit argument truncated to the width
  of the field.
\<close>

definition truncInt :: "nat \<Rightarrow> int \<Rightarrow> int" where
  "truncInt bits i = (i + 2 ^ (bits - 1)) mod 2 ^ bits - 2 ^ (bits - 1)"

definition truncUint :: "nat \<Rightarrow> nat \<Rightarrow> nat" where
  "truncUint bits n = n mod 2 ^ bits"

text \<open>
  \<open>setField\<close>, for a field given as its type and its current value; the result is the
  returned error and the value the field holds afterwards. The fields \<open>scanRow\<close> passes
  are addressable, so \<open>CanSet\<close> is \<open>Exported\<close>. \<open>SetFloat\<close> on a \<open>float32\<close> field rounds
  to that width, which the model of floats above does not show.
\<close>

definition setField :: "StructField \<times> cell \<Rightarrow> cell \<Rightarrow> error option \<times> cell" where
  "setField field v =
     (case field of (fieldType, old) \<Rightarrow>
        if \<not> Exported fieldType then (None, old)
        else
          (let valueStr = Sprintf_v v; k = Kind fieldType
           in (None,
               if k = String then CString valueStr
               else if isIntKind k then
                 (case ParseInt valueStr of Some i \<Rightarrow> CInt (truncInt (bitSize k) i) | None \<Rightarrow> old)
               else if isUintKind k then
                 (case ParseUint valueStr of Some i \<Rightarrow> CUint (truncUint (bitSize k) i) | None \<Rightarrow> old)
               else if isFloatKind k then
                 (case ParseFloat valueStr of Some f \<Rightarrow> CFloat f | None \<Rightarrow> old)
               else if k = Bool then
                 (case ParseBool valueStr of Some b \<Rightarrow> CBool b | None \<Rightarrow> old)
               else if k = Struct \<or> k = Slice then JsonSet fieldType old v
               else old)))"

definition columnName :: "StructField \<Rightarrow> string" where
  "columnName fieldType = (if Tag fieldType \<noteq> [] then Tag fieldType else Name fieldType)"

text \<open>The field loop of \<open>scanRow\<close>; the result is the fields after the loop.\<close>

fun scanRow_loop ::
  "cell list \<Rightarrow> cell list \<Rightarrow> (StructField \<times> cell) list \<Rightarrow> error + (StructField \<times> cell) list" where
  "scanRow_loop row headers [] = Inr []"
| "scanRow_loop row headers ((fieldType, field) # rest) =
     (let continue = (\<lambda>field'. case scanRow_loop row headers rest of
                                  Inl err \<Rightarrow> Inl err
                                | Inr rest' \<Rightarrow> Inr ((fieldType, field') # rest'))
      in if Tag fieldType = ''-'' then continue field
         else case columnIndex headers (columnName fieldType) of
                None \<Rightarrow> continue field
              | Some colIdx \<Rightarrow>
                  if colIdx \<ge> length row then continue field
                  else case setField (fieldType, field) (row ! colIdx) of
                         (Some err, _) \<Rightarrow>
                           Inl (wrapError (''failed to set field '' @ Name fieldType @ '': '') err)
                       | (None, field') \<Rightarrow> continue field')"

definition scanRow :: "cell list \<Rightarrow> cell list \<Rightarrow> go_value \<Rightarrow> error + go_value" where
  "scanRow row headers dest =
     (case dest of
        StructVal flds \<Rightarrow>
          (case scanRow_loop row headers flds of
             Inl err \<Rightarrow> Inl err
           | Inr flds' \<Rightarrow> Inr (StructVal flds'))
      | PtrTo (StructVal flds) \<Rightarrow>
          (case scanRow_loop row headers flds of
             Inl err \<Rightarrow> Inl err
           | Inr flds' \<Rightarrow> Inr (PtrTo (StructVal flds')))
      | _ \<Rightarrow> Inl (Error ''dest must be a struct''))"

text \<open>
  \<open>reflect.New(elemType).Elem()\<close>: the zero value of the element type. An element type
  that is not a struct type is given by its zero value.
\<close>

datatype elem_type = StructType "StructField list" | OtherType go_value

definition newElem :: "elem_type \<Rightarrow> go_value" where
  "newElem elemType =
     (case elemType of
        StructType fieldTypes \<Rightarrow> StructVal (map (\<lambda>fieldType. (fieldType, zeroValue fieldType)) fieldTypes)
      | OtherType zero \<Rightarrow> zero)"

text \<open>
  The destination of a query: a pointer to a slice (its element type and its current
  elements), or anything else.
\<close>

datatype dest = SlicePtr elem_type "go_value list" | NotSlicePtr

fun scanIntoSlice_loop ::
  "cell list list \<Rightarrow> cell list \<Rightarrow> elem_type \<Rightarrow> go_value list \<Rightarrow> error + go_value list" where
  "scanIntoSlice_loop [] headers elemType sliceVal = Inr sliceVal"
| "scanIntoSlice_loop (row # rows) headers elemType sliceVal =
     (case scanRow row headers (newElem elemType) of
        Inl err \<Rightarrow> Inl err
      | Inr elem \<Rightarrow> scanIntoSlice_loop rows headers elemType (sliceVal @ [elem]))"

text \<open>
  \<open>scanIntoSlice\<close>: the error returned and the destination afterwards. The slice is
  stored back only after the last row, so an error leaves the destination as it was.
\<close>

definition scanIntoSlice :: "cell list list \<Rightarrow> cell list \<Rightarrow> dest \<Rightarrow> error option \<times> dest" where
  "scanIntoSlice rows headers d =
     (case d of
        NotSlicePtr \<Rightarrow> (Some (Error ''dest must be a pointer to a slice''), d)
      | SlicePtr elemType sliceVal \<Rightarrow>
          (case scanIntoSlice_loop rows headers elemType sliceVal of
             Inl err \<Rightarrow> (Some err, d)
           | Inr sliceVal' \<Rightarrow> (None, SlicePtr elemType sliceVal')))"

subsection \<open>\<open>Query.Get\<close>\<close>

text \<open>
  \<open>Get\<close> returns the error, the destination afterwards and the world afterwards.
  \<open>len(data) \<ge> 2\<close> where \<open>data[0]\<close> and \<open>data[1:]\<close> are taken.
\<close>

definition Get :: "'s Query \<Rightarrow> dest \<Rightarrow> 's world \<Rightarrow> (error option \<times> dest) \<times> 's world" where
  "Get q d w =
     (case clientRead (table q) (name (table q)) w of
        (Inl err, w') \<Rightarrow> ((Some (wrapError ''failed to read data: '' err), d), w')
      | (Inr data, w') \<Rightarrow>
          if length data < 2 then ((None, d), w')
          else
            (let headers = hd data;
                 rows = tl data;
                 filtered = applyFilters q rows headers;
                 filtered = (if orderBy q \<noteq> [] then applySort q filtered headers else filtered);
                 filtered = applyLimit q filtered
             in (scanIntoSlice filtered headers d, w')))"

subsection \<open>Point and bulk updates and deletes\<close>

text \<open>\<open>fmt.Sprintf("%s!A%d:%s%d", t.name, actualRow, endCol, actualRow)\<close>.\<close>

definition rowRange :: "string \<Rightarrow> int \<Rightarrow> string \<Rightarrow> string" where
  "rowRange tableName actualRow endCol =
     tableName @ ''!A'' @ FormatInt actualRow @ '':'' @ endCol @ FormatInt actualRow"

definition Update :: "'s Table \<Rightarrow> int \<Rightarrow> go_value \<Rightarrow> 's world \<Rightarrow> error option \<times> 's world" where
  "Update t rowIndex record w =
     (if rowIndex < 0 then (Some (Error ''row index cannot be negative''), w)
      else case structToValues record of
             Inl err \<Rightarrow> (Some (wrapError ''failed to convert record: '' err), w)
           | Inr values \<Rightarrow>
               (let actualRow = wrap64 (rowIndex + 2);
                    colCount = int (length values);
                    endCol = columnIndexToLetter (colCount - 1);
                    range0 = rowRange (name t) actualRow endCol
                in clientWrite t range0 [values] w))"

text \<open>
  The loop that collects the positions of the matching rows, \<open>i\<close> being the position of
  the first row of \<open>rows\<close>. A slice holds fewer than \<open>2^63\<close> rows, so neither \<open>i + 1\<close> nor
  \<open>idx + 2\<close> below can wrap around.
\<close>

fun matchingIndices :: "cell list list \<Rightarrow> cell list \<Rightarrow> Filter \<Rightarrow> nat \<Rightarrow> nat list" where
  "matchingIndices [] headers f i = []"
| "matchingIndices (row # rows) headers f i =
     (if matchesFilter row headers f then i # matchingIndices rows headers f (Suc i)
      else matchingIndices rows headers f (Suc i))"

text \<open>The write loop of \<open>UpdateWhere\<close>: it stops at the first failing \<open>Write\<close>.\<close>

fun UpdateWhere_loop ::
  "'s Table \<Rightarrow> string \<Rightarrow> cell list \<Rightarrow> nat list \<Rightarrow> 's world \<Rightarrow> error option \<times> 's world" where
  "UpdateWhere_loop t endCol values [] w = (None, w)"
| "UpdateWhere_loop t endCol values (idx # indices) w =
     (let actualRow = int idx + 2;
          range0 = rowRange (name t) actualRow endCol
      in case clientWrite t range0 [values] w of
           (Some err, w') \<Rightarrow>
             (Some (wrapError (''failed to update row '' @ FormatInt (int idx) @ '': '') err), w')
         | (None, w') \<Rightarrow> UpdateWhere_loop t endCol values indices w')"

definition UpdateWhere ::
  "'s Table \<Rightarrow> string \<Rightarrow> string \<Rightarrow> cell \<Rightarrow> go_value \<Rightarrow> 's world \<Rightarrow> error option \<times> 's world" where
  "UpdateWhere t column operator v record w =
     (case clientRead t (name t) w of
        (Inl err, w') \<Rightarrow> (Some (wrapError ''failed to read data: '' err), w')
      | (Inr data, w') \<Rightarrow>
          if length data < 2 then (None, w')
          else
            (let headers = hd data;
                 rows = tl data;
                 f = \<lparr>Column = column, Operator = operator, Value = v\<rparr>;
                 indices = matchingIndices rows headers f 0
             in if length indices = 0 then (None, w')
                else case structToValues record of
                       Inl err \<Rightarrow> (Some (wrapError ''failed to convert record: '' err), w')
                     | Inr values \<Rightarrow>
                         (let colCount = int (length values);
                              endCol = columnIndexToLetter (colCount - 1)
                          in UpdateWhere_loop t endCol values indices w')))"

definition Delete :: "'s Table \<Rightarrow> int \<Rightarrow> 's world \<Rightarrow> error option \<times> 's world" where
  "Delete t rowIndex w =
     (if rowIndex < 0 then (Some (Error ''row index cannot be negative''), w)
      else (let actualRow = wrap64 (rowIndex + 1)
            in clientDeleteRows t (name t) [actualRow] w))"

text \<open>\<open>sort.Sort(sort.Reverse(sort.IntSlice(indices)))\<close>: the indices in descending order.\<close>

definition sortReverse :: "int list \<Rightarrow> int list" where
  "sortReverse indices = rev (sort indices)"

definition DeleteWhere ::
  "'s Table \<Rightarrow> string \<Rightarrow> string \<Rightarrow> cell \<Rightarrow> 's world \<Rightarrow> error option \<times> 's world" where
  "DeleteWhere t column operator v w =
     (case clientRead t (name t) w of
        (Inl err, w') \<Rightarrow> (Some (wrapError ''failed to read data: '' err), w')
      | (Inr data, w') \<Rightarrow>
          if length data < 2 then (None, w')
          else
            (let headers = hd data;
                 rows = tl data;
                 f = \<lparr>Column = column, Operator = operator, Value = v\<rparr>;
                 indices = map (\<lambda>i. int i + 1) (matchingIndices rows headers f 0)
             in if length indices = 0 then (None, w')
                else clientDeleteRows t (name t) (sortReverse indices) w'))"

section \<open>Reference notions and test doubles\<close>

text \<open>
  Spreadsheet column lettering as the specification words it: base 26 with the digits
  \<open>A = 1, ..., Z = 26\<close> and no zero digit, the column index being the value of the
  letters less one (\<open>A\<close> is 0, \<open>Z\<close> is 25, \<open>AA\<close> is 26).
\<close>

definition isLetter :: "char \<Rightarrow> bool" where
  "isLetter c = (CHR ''A'' \<le> c \<and> c \<le> CHR ''Z'')"

definition isColumnLetters :: "string \<Rightarrow> bool" where
  "isColumnLetters s = (s \<noteq> [] \<and> list_all isLetter s)"

definition lettersValue :: "string \<Rightarrow> int" where
  "lettersValue s = foldl (\<lambda>acc c. acc * 26 + (of_char c - 64)) 0 s"

definition spec_columnIndex :: "string \<Rightarrow> int" where
  "spec_columnIndex s = lettersValue s - 1"

text \<open>
  The collaborator of the repository's tests (\<open>MockSheetsClient\<close> with a \<open>ReadFunc\<close> that
  returns \<open>mockData\<close> and write functions that return nil), on the sheet \<open>Users\<close>.
\<close>

definition mockClient :: "cell list list \<Rightarrow> unit SheetsClient" where
  "mockClient mockData =
     \<lparr>Read = (\<lambda>range0 s. (Inr mockData, s)),
      Write = (\<lambda>range0 values s. (None, s)),
      Append = (\<lambda>range0 values s. (None, s)),
      DeleteRows = (\<lambda>sheetName rowIndices s. (None, s))\<rparr>"

definition mockTable :: "cell list list \<Rightarrow> unit Table" where
  "mockTable mockData = \<lparr>client = mockClient mockData, name = ''Users''\<rparr>"

text \<open>
  An exported field of a scalar kind. \<open>OtherZero\<close> and \<open>JsonSet\<close> are read only for the
  kinds that are not scalar.
\<close>

definition scalarField :: "string \<Rightarrow> string \<Rightarrow> kind \<Rightarrow> StructField" where
  "scalarField fieldName tag k =
     \<lparr>Name = fieldName, Tag = tag, Kind = k, Exported = True,
      OtherZero = CNil, JsonSet = (\<lambda>old v. old)\<rparr>"

text \<open>
  What one pass of the loop of \<open>scanRow\<close> leaves in a field: the field is untouched when
  it is tagged \<open>-\<close>, when its column is not in the header, or when the row is too short.
\<close>

definition decodeField :: "cell list \<Rightarrow> cell list \<Rightarrow> StructField \<times> cell \<Rightarrow> cell" where
  "decodeField row headers field =
     (if Tag (fst field) = ''-'' then snd field
      else case columnIndex headers (columnName (fst field)) of
             None \<Rightarrow> snd field
           | Some colIdx \<Rightarrow>
               if colIdx \<ge> length row then snd field
               else snd (setField field (row ! colIdx)))"




section \<open>The limit step\<close>

text \<open>
  Claim C7. For every list of rows and every limit \<open>n\<close>: when \<open>n > 0\<close>, \<open>applyLimit\<close>
  returns the first \<open>n\<close> rows (all of them if there are fewer), a list of length
  \<open>min (len rows) n\<close>; when \<open>n \<le> 0\<close> it returns the rows unchanged; it never returns more
  rows than it was given; and applying it twice is the same as applying it once.
\<close>

theorem applyLimit_length:
  "(limit q > 0 \<longrightarrow> applyLimit q rows = take (nat (limit q)) rows
                     \<and> length (applyLimit q rows) = min (length rows) (nat (limit q)))
   \<and> (limit q \<le> 0 \<longrightarrow> applyLimit q rows = rows)
   \<and> length (applyLimit q rows) \<le> length rows
   \<and> applyLimit q (applyLimit q rows) = applyLimit q rows"
  by (auto simp: applyLimit_def)

theorem applyLimit_length_witness:
  "applyLimit (Limit 2 (NewQuery (mockTable []))) [[CInt 1], [CInt 2], [CInt 3]]
     = [[CInt 1], [CInt 2]]
   \<and> length (applyLimit (Limit 2 (NewQuery (mockTable []))) [[CInt 1], [CInt 2], [CInt 3]]) = 2
   \<and> applyLimit (Limit 0 (NewQuery (mockTable []))) [[CInt 1], [CInt 2], [CInt 3]]
     = [[CInt 1], [CInt 2], [CInt 3]]"
  using applyLimit_length [of "Limit 2 (NewQuery (mockTable []))" "[[CInt 1], [CInt 2], [CInt 3]]"]
        applyLimit_length [of "Limit 0 (NewQuery (mockTable []))" "[[CInt 1], [CInt 2], [CInt 3]]"]
  by (simp add: Limit_def NewQuery_def)

section \<open>The sort step\<close>






section \<open>Grids without a data row\<close>

text \<open>
  Claim C8. When the collaborator's \<open>Read\<close> returns a grid of fewer than two rows (only a
  header, or nothing at all), \<open>Get\<close> returns no error and leaves the destination as it
  was (no record is decoded), and \<open>UpdateWhere\<close> and \<open>DeleteWhere\<close> return no error; in
  all three the only call issued to the collaborator is that \<open>Read\<close>: no \<open>Write\<close> and no
  \<open>DeleteRows\<close>.
\<close>

theorem empty_grid_no_calls:
  assumes "Read (client (table q)) (name (table q)) s = (Inr data, s')" and "length data < 2"
  shows "Get q d (log, s) = ((None, d), (log @ [ReadCall (name (table q))], s'))
       \<and> UpdateWhere (table q) column operator v record (log, s)
           = (None, (log @ [ReadCall (name (table q))], s'))
       \<and> DeleteWhere (table q) column operator v (log, s)
           = (None, (log @ [ReadCall (name (table q))], s'))"
  using assms by (simp add: Get_def UpdateWhere_def DeleteWhere_def clientRead_def)

theorem empty_grid_no_calls_witness:
  "Get (NewQuery (mockTable [[CString ''ID'']])) (SlicePtr (StructType []) []) ([], ())
     = ((None, SlicePtr (StructType []) []), ([ReadCall ''Users''], ()))
   \<and> UpdateWhere (mockTable [[CString ''ID'']]) ''ID'' ''='' (CInt 1) (StructVal []) ([], ())
     = (None, ([ReadCall ''Users''], ()))
   \<and> DeleteWhere (mockTable [[CString ''ID'']]) ''ID'' ''='' (CInt 1) ([], ())
     = (None, ([ReadCall ''Users''], ()))"
  using empty_grid_no_calls [of "NewQuery (mockTable [[CString ''ID'']])" "()"
          "[[CString ''ID'']]" "()" "SlicePtr (StructType []) []" "[]" "''ID''" "''=''"
          "CInt 1" "StructVal []"]
  by (simp add: NewQuery_def mockTable_def mockClient_def)

section \<open>Column letters are the spreadsheet lettering\<close>

lemma loop_append:
  "columnIndexToLetter_loop i (r @ t) = columnIndexToLetter_loop i r @ t"
proof (induction i r rule: columnIndexToLetter_loop.induct)
  case (1 index result)
  show ?case
  proof (cases "index \<ge> 0")
    case True
    have "columnIndexToLetter_loop index (result @ t)
          = columnIndexToLetter_loop (index div 26 - 1) ((char_of (65 + index mod 26) # result) @ t)"
      using True by (subst columnIndexToLetter_loop.simps) simp
    also have "\<dots> = columnIndexToLetter_loop (index div 26 - 1) (char_of (65 + index mod 26) # result) @ t"
      using 1 True by blast
    also have "\<dots> = columnIndexToLetter_loop index result @ t"
      using True by (subst (2) columnIndexToLetter_loop.simps) simp
    finally show ?thesis .
  next
    case False
    then show ?thesis by (simp add: columnIndexToLetter_loop.simps)
  qed
qed

lemma loop_step:
  "0 \<le> i \<Longrightarrow> columnIndexToLetter_loop i [] =
     columnIndexToLetter_loop (i div 26 - 1) [] @ [char_of (65 + i mod 26)]"
  using loop_append [of "i div 26 - 1" "[]" "[char_of (65 + i mod 26)]"]
  by (subst columnIndexToLetter_loop.simps) simp

lemma loop_neg: "i < 0 \<Longrightarrow> columnIndexToLetter_loop i r = r"
  by (simp add: columnIndexToLetter_loop.simps)

lemma char_le_int: "c1 \<le> c2 \<longleftrightarrow> (of_char c1 :: int) \<le> of_char c2"
proof -
  have "(of_char c1 :: int) = int (of_char c1)" "(of_char c2 :: int) = int (of_char c2)"
    by (simp_all only: of_nat_of_char)
  then show ?thesis by (simp add: less_eq_char_def)
qed

lemma isLetter_int: "isLetter c \<longleftrightarrow> 65 \<le> (of_char c :: int) \<and> (of_char c :: int) \<le> 90"
  by (simp add: isLetter_def char_le_int)

lemma isLetter_digit: "0 \<le> d \<Longrightarrow> d < 26 \<Longrightarrow> isLetter (char_of (65 + d :: int))"
  by (simp add: isLetter_int)

lemma lettersValue_snoc: "lettersValue (s @ [c]) = lettersValue s * 26 + (of_char c - 64)"
  by (simp add: lettersValue_def)

lemma lettersValue_Nil: "lettersValue [] = 0"
  by (simp add: lettersValue_def)

lemma lettersValue_single: "lettersValue [c] = of_char c - 64"
  by (simp add: lettersValue_def)

lemma loop_value:
  "0 \<le> i \<Longrightarrow> lettersValue (columnIndexToLetter_loop i []) = i + 1
      \<and> isColumnLetters (columnIndexToLetter_loop i [])"
proof (induction "nat i" arbitrary: i rule: less_induct)
  case less
  let ?j = "i div 26 - 1"
  let ?c = "char_of (65 + i mod 26) :: char"
  have step: "columnIndexToLetter_loop i [] = columnIndexToLetter_loop ?j [] @ [?c]"
    using less.prems by (rule loop_step)
  have c: "isLetter ?c" "(of_char ?c :: int) = 65 + i mod 26"
    by (simp_all add: isLetter_digit)
  show ?case
  proof (cases "?j < 0")
    case True
    then have "i < 26" by linarith
    with less.prems True c show ?thesis
      by (simp add: step loop_neg lettersValue_single isColumnLetters_def)
  next
    case False
    then have "0 \<le> ?j" by simp
    moreover have "nat ?j < nat i" using less.prems False by linarith
    ultimately have IH: "lettersValue (columnIndexToLetter_loop ?j []) = ?j + 1"
      "isColumnLetters (columnIndexToLetter_loop ?j [])"
      using less.hyps by blast+
    have "lettersValue (columnIndexToLetter_loop i []) = (?j + 1) * 26 + (i mod 26 + 1)"
      by (simp add: step lettersValue_snoc IH c)
    also have "\<dots> = i + 1" by (simp add: algebra_simps)
    finally show ?thesis
      using IH(2) c(1) by (simp add: step isColumnLetters_def)
  qed
qed

lemma value_loop:
  "isColumnLetters s \<Longrightarrow> 1 \<le> lettersValue s \<and> columnIndexToLetter_loop (lettersValue s - 1) [] = s"
proof (induction s rule: rev_induct)
  case Nil
  then show ?case by (simp add: isColumnLetters_def)
next
  case (snoc c s)
  from snoc.prems have c: "isLetter c" and s: "list_all isLetter s"
    by (simp_all add: isColumnLetters_def)
  define d where "d = (of_char c :: int) - 65"
  have d: "0 \<le> d" "d < 26" using c by (simp_all add: isLetter_int d_def)
  have cd: "char_of (65 + d) = c" by (simp add: d_def)
  have v: "lettersValue (s @ [c]) = lettersValue s * 26 + (d + 1)"
    by (simp add: lettersValue_snoc d_def)
  show ?case
  proof (cases "s = []")
    case True
    have "columnIndexToLetter_loop d [] = [c]"
      using d cd by (simp add: loop_step loop_neg)
    with d show ?thesis by (simp add: True lettersValue_single d_def)
  next
    case False
    with s snoc.IH have IH: "1 \<le> lettersValue s"
      "columnIndexToLetter_loop (lettersValue s - 1) [] = s"
      by (simp_all add: isColumnLetters_def)
    let ?i = "lettersValue s * 26 + d"
    have i: "0 \<le> ?i" "?i div 26 = lettersValue s" "?i mod 26 = d"
      using IH(1) d by auto
    have "columnIndexToLetter_loop ?i [] = s @ [c]"
      using i IH(2) cd by (simp add: loop_step)
    moreover have "lettersValue (s @ [c]) - 1 = ?i" by (simp add: v)
    ultimately show ?thesis using IH(1) d by (simp add: v)
  qed
qed


text \<open>
  Claim C9. \<open>columnIndexToLetter\<close> is a bijection from the non-negative indices onto the
  strings of letters \<open>A\<close> to \<open>Z\<close>, and it is the spreadsheet lettering: for \<open>i \<ge> 0\<close> the
  result is a non-empty string of letters whose column index in the base-26 reading above
  is \<open>i\<close>; every non-empty string of letters is the lettering of its column index; two
  different non-negative indices get different letterings; and every negative index
  gives \<open>A\<close>.
\<close>

theorem columnIndexToLetter_bijection:
  "(0 \<le> i \<longrightarrow> isColumnLetters (columnIndexToLetter i)
                \<and> spec_columnIndex (columnIndexToLetter i) = i)
   \<and> (isColumnLetters s \<longrightarrow> 0 \<le> spec_columnIndex s
                \<and> columnIndexToLetter (spec_columnIndex s) = s)
   \<and> (0 \<le> i \<and> 0 \<le> j \<and> i \<noteq> j \<longrightarrow> columnIndexToLetter i \<noteq> columnIndexToLetter j)
   \<and> (i < 0 \<longrightarrow> columnIndexToLetter i = ''A'')"
proof -
  have inv: "spec_columnIndex (columnIndexToLetter k) = k" if "0 \<le> k" for k
    using that loop_value [of k] by (simp add: columnIndexToLetter_def spec_columnIndex_def)
  have a: "0 \<le> i \<longrightarrow> isColumnLetters (columnIndexToLetter i)
                \<and> spec_columnIndex (columnIndexToLetter i) = i"
    using loop_value [of i] inv [of i] by (simp add: columnIndexToLetter_def)
  have b: "isColumnLetters s \<longrightarrow> 0 \<le> spec_columnIndex s
                \<and> columnIndexToLetter (spec_columnIndex s) = s"
    using value_loop [of s] by (auto simp: columnIndexToLetter_def spec_columnIndex_def)
  have c: "0 \<le> i \<and> 0 \<le> j \<and> i \<noteq> j \<longrightarrow> columnIndexToLetter i \<noteq> columnIndexToLetter j"
    using inv [of i] inv [of j] by auto
  have d: "i < 0 \<longrightarrow> columnIndexToLetter i = ''A''"
    by (simp add: columnIndexToLetter_def)
  from a b c d show ?thesis by blast
qed

theorem columnIndexToLetter_bijection_witness:
  "columnIndexToLetter 0 = ''A'' \<and> columnIndexToLetter 25 = ''Z''
   \<and> columnIndexToLetter 26 = ''AA'' \<and> columnIndexToLetter 701 = ''ZZ''
   \<and> columnIndexToLetter 702 = ''AAA''
   \<and> spec_columnIndex (columnIndexToLetter 26) = 26
   \<and> isColumnLetters ''AA'' \<and> columnIndexToLetter (spec_columnIndex ''AA'') = ''AA''
   \<and> columnIndexToLetter 26 \<noteq> columnIndexToLetter 27
   \<and> columnIndexToLetter (- 1) = ''A''"
proof -
  have l: "isColumnLetters ''AA''"
    by (simp add: isColumnLetters_def isLetter_def)
  have e: "columnIndexToLetter 0 = ''A''" "columnIndexToLetter 25 = ''Z''"
    "columnIndexToLetter 26 = ''AA''" "columnIndexToLetter 701 = ''ZZ''"
    "columnIndexToLetter 702 = ''AAA''"
    by code_simp+
  show ?thesis
    using l e columnIndexToLetter_bijection [of 26 "''AA''" 27]
      columnIndexToLetter_bijection [of "- 1" "''AA''" 27]
    by simp
qed

section \<open>Decoding never fails; the header is searched for strings only\<close>

lemma setField_no_error: "fst (setField field v) = None"
  by (cases field) (simp add: setField_def Let_def)

lemma setField_not_Some: "setField field v \<noteq> (Some err, x)"
  using setField_no_error [of field v] by auto

lemma scanRow_loop_map:
  "scanRow_loop row headers flds
     = Inr (map (\<lambda>field. (fst field, decodeField row headers field)) flds)"
proof (induction flds)
  case Nil
  then show ?case by simp
next
  case (Cons field flds)
  obtain fieldType old where f: "field = (fieldType, old)" by (cases field)
  show ?case
    using Cons.IH
    by (auto simp: f decodeField_def Let_def setField_not_Some split: option.splits prod.splits)
qed

lemma columnIndex_Some:
  "columnIndex headers column = Some i \<Longrightarrow> i < length headers \<and> headers ! i = CString column"
proof (induction headers arbitrary: i)
  case Nil
  then show ?case by simp
next
  case (Cons h headers)
  then show ?case by (auto split: if_splits option.splits)
qed

lemma columnIndex_None: "CString column \<notin> set headers \<Longrightarrow> columnIndex headers column = None"
  by (induction headers) auto

lemma matchesFilters_member:
  "f \<in> set fs \<Longrightarrow> columnIndex headers (Column f) = None \<Longrightarrow> \<not> matchesFilters fs row headers"
  by (induction fs) (auto split: option.splits)

text \<open>
  Claim C10. The header lookup shared by \<open>matchesFilter\<close>, \<open>matchesFilters\<close> and
  \<open>scanRow\<close> finds a column only at a header cell that is a string equal to the column
  name. So a header cell that holds a number or a boolean is never found, whatever it
  prints as; and when no header cell is the string \<open>column\<close>, a filter on \<open>column\<close> is
  false for every row, a conjunction of filters that holds one on \<open>column\<close> is false for
  every row, and a field bound to \<open>column\<close> keeps its zero value in every decoded record.
\<close>

theorem header_lookup_strings_only:
  "(columnIndex headers column = Some i \<longrightarrow> i < length headers \<and> headers ! i = CString column)
   \<and> (CString column \<notin> set headers \<longrightarrow>
         columnIndex headers column = None
       \<and> \<not> matchesFilter row headers \<lparr>Column = column, Operator = op, Value = v\<rparr>
       \<and> (f \<in> set fs \<and> Column f = column \<longrightarrow> \<not> matchesFilters fs row headers)
       \<and> (k < length fieldTypes \<and> columnName (fieldTypes ! k) = column \<longrightarrow>
            (\<exists>flds. scanRow row headers (newElem (StructType fieldTypes)) = Inr (StructVal flds)
                    \<and> length flds = length fieldTypes
                    \<and> flds ! k = (fieldTypes ! k, zeroValue (fieldTypes ! k)))))"
proof -
  have a: "columnIndex headers column = Some i \<longrightarrow> i < length headers \<and> headers ! i = CString column"
    using columnIndex_Some by blast
  have b: "columnIndex headers column = None
       \<and> \<not> matchesFilter row headers \<lparr>Column = column, Operator = op, Value = v\<rparr>
       \<and> (f \<in> set fs \<and> Column f = column \<longrightarrow> \<not> matchesFilters fs row headers)
       \<and> (k < length fieldTypes \<and> columnName (fieldTypes ! k) = column \<longrightarrow>
            (\<exists>flds. scanRow row headers (newElem (StructType fieldTypes)) = Inr (StructVal flds)
                    \<and> length flds = length fieldTypes
                    \<and> flds ! k = (fieldTypes ! k, zeroValue (fieldTypes ! k))))"
    if h: "CString column \<notin> set headers"
  proof -
    have n: "columnIndex headers column = None" using h by (rule columnIndex_None)
    have m: "\<not> matchesFilter row headers \<lparr>Column = column, Operator = op, Value = v\<rparr>"
      by (simp add: matchesFilter_def n)
    have ms: "f \<in> set fs \<and> Column f = column \<longrightarrow> \<not> matchesFilters fs row headers"
      using matchesFilters_member [of f fs headers row] n by auto
    have d: "decodeField row headers (fieldTypes ! k, zeroValue (fieldTypes ! k)) = zeroValue (fieldTypes ! k)"
      if "columnName (fieldTypes ! k) = column"
      using that n by (simp add: decodeField_def)
    have s: "k < length fieldTypes \<and> columnName (fieldTypes ! k) = column \<longrightarrow>
            (\<exists>flds. scanRow row headers (newElem (StructType fieldTypes)) = Inr (StructVal flds)
                    \<and> length flds = length fieldTypes
                    \<and> flds ! k = (fieldTypes ! k, zeroValue (fieldTypes ! k)))"
      using d by (simp add: scanRow_def newElem_def scanRow_loop_map)
    from n m ms s show ?thesis by blast
  qed
  from a b show ?thesis by blast
qed


theorem header_lookup_strings_only_witness:
  "Sprintf_v (CFloat (Fin False 1 0)) = ''1''
   \<and> columnIndex [CFloat (Fin False 1 0), CString ''Name''] ''Name'' = Some 1
   \<and> columnIndex [CFloat (Fin False 1 0), CString ''Name''] ''1'' = None
   \<and> \<not> matchesFilter [CString ''x'', CString ''Alice''] [CFloat (Fin False 1 0), CString ''Name'']
          \<lparr>Column = ''1'', Operator = ''='', Value = CString ''x''\<rparr>
   \<and> \<not> matchesFilters [\<lparr>Column = ''1'', Operator = ''='', Value = CString ''x''\<rparr>]
          [CString ''x'', CString ''Alice''] [CFloat (Fin False 1 0), CString ''Name'']
   \<and> scanRow [CString ''x'', CString ''Alice''] [CFloat (Fin False 1 0), CString ''Name'']
         (newElem (StructType [scalarField ''ID'' ''1'' String, scalarField ''Name'' [] String]))
       = Inr (StructVal [(scalarField ''ID'' ''1'' String, CString []),
                         (scalarField ''Name'' [] String, CString ''Alice'')])"
proof -
  have f: "Sprintf_v (CFloat (Fin False 1 0)) = ''1''"
    by code_simp
  have s: "scanRow [CString ''x'', CString ''Alice''] [CFloat (Fin False 1 0), CString ''Name'']
         (newElem (StructType [scalarField ''ID'' ''1'' String, scalarField ''Name'' [] String]))
       = Inr (StructVal [(scalarField ''ID'' ''1'' String, CString []),
                         (scalarField ''Name'' [] String, CString ''Alice'')])"
    by (simp add: scanRow_def newElem_def scalarField_def zeroValue_def columnName_def
          setField_def)
  show ?thesis
    using f s header_lookup_strings_only [of "[CFloat (Fin False 1 0), CString ''Name'']" "''1''" 0
        "[CString ''x'', CString ''Alice'']" "''=''" "CString ''x''"
        "\<lparr>Column = ''1'', Operator = ''='', Value = CString ''x''\<rparr>"
        "[\<lparr>Column = ''1'', Operator = ''='', Value = CString ''x''\<rparr>]" 0
        "[scalarField ''ID'' ''1'' String, scalarField ''Name'' [] String]"]
    by simp
qed

section \<open>Bulk deletion\<close>








section \<open>The comparison behind the ordering operators\<close>
















section \<open>Coercion to a boolean field\<close>




section \<open>Point update and point delete\<close>

lemma wrap64_id: "- (2 ^ 63) \<le> x \<Longrightarrow> x < 2 ^ 63 \<Longrightarrow> wrap64 x = x"
  by (simp add: wrap64_def)

lemma span_covers:
  "vs \<noteq> [] \<Longrightarrow>
   isColumnLetters (columnIndexToLetter (int (length vs) - 1))
   \<and> spec_columnIndex (columnIndexToLetter (int (length vs) - 1)) + 1 = int (length vs)"
proof -
  assume "vs \<noteq> []"
  then have "0 \<le> int (length vs) - 1" by (cases vs) simp_all
  then show ?thesis
    using loop_value [of "int (length vs) - 1"]
    by (simp add: columnIndexToLetter_def spec_columnIndex_def)
qed

text \<open>
  Claim C5, as amended. With \<open>rowIndex < 0\<close>, \<open>Update\<close> and \<open>Delete\<close> fail with the error
  \<open>row index cannot be negative\<close> and issue no call. With \<open>rowIndex \<ge> 0\<close>: when the record
  does not encode, \<open>Update\<close> returns the encoding error and issues no call; when it
  encodes to the cells \<open>values\<close>, \<open>Update\<close> issues a single \<open>Write\<close> of that one row at
  \<open>table!A{row}:{letter}{row}\<close> and returns its result, where \<open>row\<close> is Go's
  \<open>rowIndex + 2\<close> (the exact sum unless it overflows) and \<open>letter\<close> is
  \<open>columnIndexToLetter (len values - 1)\<close>; for at least one cell the letters from \<open>A\<close> to
  \<open>letter\<close> are exactly as many columns as there are cells. \<open>Delete\<close> issues one
  \<open>DeleteRows\<close> call for the single index that is Go's \<open>rowIndex + 1\<close> (the exact sum
  unless it overflows) and returns its result.
\<close>

theorem Update_Delete_addressing:
  "(rowIndex < 0 \<longrightarrow>
      Update t rowIndex record w = (Some (Error ''row index cannot be negative''), w)
    \<and> Delete t rowIndex w = (Some (Error ''row index cannot be negative''), w))
   \<and> (0 \<le> rowIndex \<and> structToValues record = Inl err \<longrightarrow>
      Update t rowIndex record w = (Some (wrapError ''failed to convert record: '' err), w))
   \<and> (0 \<le> rowIndex \<and> structToValues record = Inr values \<longrightarrow>
      (let actualRow = wrap64 (rowIndex + 2);
           endCol = columnIndexToLetter (int (length values) - 1);
           range0 = name t @ ''!A'' @ FormatInt actualRow @ '':'' @ endCol @ FormatInt actualRow
       in Update t rowIndex record (log, s)
            = (fst (Write (client t) range0 [values] s),
               (log @ [WriteCall range0 [values]], snd (Write (client t) range0 [values] s)))
          \<and> (rowIndex + 2 < 2 ^ 63 \<longrightarrow> actualRow = rowIndex + 2)
          \<and> (values \<noteq> [] \<longrightarrow>
                isColumnLetters endCol \<and> spec_columnIndex endCol + 1 = int (length values))))
   \<and> (0 \<le> rowIndex \<longrightarrow>
      (let actualRow = wrap64 (rowIndex + 1)
       in Delete t rowIndex (log, s)
            = (fst (DeleteRows (client t) (name t) [actualRow] s),
               (log @ [DeleteRowsCall (name t) [actualRow]],
                snd (DeleteRows (client t) (name t) [actualRow] s)))
          \<and> (rowIndex + 1 < 2 ^ 63 \<longrightarrow> actualRow = rowIndex + 1)))"
proof -
  have a: "rowIndex < 0 \<longrightarrow>
      Update t rowIndex record w = (Some (Error ''row index cannot be negative''), w)
    \<and> Delete t rowIndex w = (Some (Error ''row index cannot be negative''), w)"
    by (simp add: Update_def Delete_def)
  have b: "0 \<le> rowIndex \<and> structToValues record = Inl err \<longrightarrow>
      Update t rowIndex record w = (Some (wrapError ''failed to convert record: '' err), w)"
    by (simp add: Update_def)
  have c: "0 \<le> rowIndex \<and> structToValues record = Inr values \<longrightarrow>
      (let actualRow = wrap64 (rowIndex + 2);
           endCol = columnIndexToLetter (int (length values) - 1);
           range0 = name t @ ''!A'' @ FormatInt actualRow @ '':'' @ endCol @ FormatInt actualRow
       in Update t rowIndex record (log, s)
            = (fst (Write (client t) range0 [values] s),
               (log @ [WriteCall range0 [values]], snd (Write (client t) range0 [values] s)))
          \<and> (rowIndex + 2 < 2 ^ 63 \<longrightarrow> actualRow = rowIndex + 2)
          \<and> (values \<noteq> [] \<longrightarrow>
                isColumnLetters endCol \<and> spec_columnIndex endCol + 1 = int (length values)))"
    using span_covers [of "values"] wrap64_id [of "rowIndex + 2"]
    by (auto simp: Update_def Let_def clientWrite_def rowRange_def split: prod.splits)
  have d: "0 \<le> rowIndex \<longrightarrow>
      (let actualRow = wrap64 (rowIndex + 1)
       in Delete t rowIndex (log, s)
            = (fst (DeleteRows (client t) (name t) [actualRow] s),
               (log @ [DeleteRowsCall (name t) [actualRow]],
                snd (DeleteRows (client t) (name t) [actualRow] s)))
          \<and> (rowIndex + 1 < 2 ^ 63 \<longrightarrow> actualRow = rowIndex + 1))"
    using wrap64_id [of "rowIndex + 1"]
    by (auto simp: Delete_def Let_def clientDeleteRows_def split: prod.splits)
  from a b c d show ?thesis by blast
qed

lemma digit_char_simps:
  "digit_char 0 = CHR ''0''" "digit_char 1 = CHR ''1''" "digit_char 2 = CHR ''2''"
  "digit_char 3 = CHR ''3''" "digit_char 4 = CHR ''4''" "digit_char 5 = CHR ''5''"
  "digit_char 6 = CHR ''6''" "digit_char 7 = CHR ''7''" "digit_char 8 = CHR ''8''"
  "digit_char 9 = CHR ''9''" "digit_char (Suc 0) = CHR ''1''"
  by code_simp+

lemma FormatInt_examples:
  "FormatInt 1 = ''1''" "FormatInt 2 = ''2''"
  "FormatInt (- 9223372036854775807) = ''-9223372036854775807''"
  by (simp_all add: FormatInt_def FormatUint.simps digit_char_simps)

lemma columnIndexToLetter_examples:
  "columnIndexToLetter (- 1) = ''A''" "columnIndexToLetter 0 = ''A''" "columnIndexToLetter 1 = ''B''"
  by code_simp+

lemma wrap64_examples:
  "wrap64 (0 + 2) = 2" "wrap64 (0 + 1) = 1" "wrap64 (9223372036854775807 + 2) = - 9223372036854775807"
  by (simp_all add: wrap64_def)

theorem Update_Delete_addressing_witness:
  "Update (mockTable []) 0
     (StructVal [(scalarField ''ID'' [] IntKind, CInt 1), (scalarField ''Name'' [] String, CString ''Alice'')])
     ([], ())
     = (None, ([WriteCall ''Users!A2:B2'' [[CInt 1, CString ''Alice'']]], ()))
   \<and> Delete (mockTable []) 0 ([], ()) = (None, ([DeleteRowsCall ''Users'' [1]], ()))
   \<and> Update (mockTable []) (- 1) (StructVal []) ([], ())
     = (Some (Error ''row index cannot be negative''), ([], ()))
   \<and> Delete (mockTable []) (- 1) ([], ()) = (Some (Error ''row index cannot be negative''), ([], ()))
   \<and> Update (mockTable []) 0 (Plain (CInt 42)) ([], ())
     = (Some (Wrap ''failed to convert record: '' (Error ''record must be a struct'')), ([], ()))"
proof -
  let ?r = "StructVal [(scalarField ''ID'' [] IntKind, CInt 1), (scalarField ''Name'' [] String, CString ''Alice'')]"
  have e: "structToValues ?r = Inr [CInt 1, CString ''Alice'']"
    "structToValues (Plain (CInt 42)) = Inl (Error ''record must be a struct'')"
    by (simp_all add: structToValues_def scalarField_def)
  show ?thesis
    using e
      Update_Delete_addressing [of 0 "mockTable []" ?r "([], ())" "Error []"
        "[CInt 1, CString ''Alice'']" "[]" "()"]
      Update_Delete_addressing [of "- 1" "mockTable []" "StructVal []" "([], ())"]
      Update_Delete_addressing [of 0 "mockTable []" "Plain (CInt 42)" "([], ())"
         "Error ''record must be a struct''"]
    by (simp add: mockTable_def mockClient_def FormatInt_examples columnIndexToLetter_examples
          wrap64_examples wrapError_def Let_def)
qed

text \<open>
  Claim C5 as stated fails for a record that encodes to no cell (a struct without fields,
  or with every field tagged \<open>-\<close>): the span written is \<open>A\<close> to \<open>A\<close>, one column, and the
  encoded field count is zero.
\<close>

theorem Update_empty_record_span:
  "structToValues (StructVal []) = Inr []
   \<and> Update (mockTable []) 0 (StructVal []) ([], ())
       = (None, ([WriteCall ''Users!A2:A2'' [[]]], ()))
   \<and> spec_columnIndex ''A'' + 1 = 1"
  by (simp add: structToValues_def Update_def wrap64_def rowRange_def clientWrite_def
        mockTable_def mockClient_def FormatInt_examples columnIndexToLetter_examples
        spec_columnIndex_def lettersValue_def)

text \<open>
  Beyond \<open>rowIndex = 2^63 - 3\<close> the row address is no longer the exact sum.
\<close>

lemma Update_wraps:
  "Update (mockTable []) 9223372036854775807 (StructVal [(scalarField ''ID'' [] IntKind, CInt 1)]) ([], ())
     = (None, ([WriteCall ''Users!A-9223372036854775807:A-9223372036854775807'' [[CInt 1]]], ()))"
  by (simp add: structToValues_def Update_def wrap64_def rowRange_def clientWrite_def
        mockTable_def mockClient_def FormatInt_examples columnIndexToLetter_examples scalarField_def)

section \<open>The round trip of the record codec\<close>




















text \<open>
  The other conditions on the record are needed as well: two fields bound to one column
  both receive the first cell of that name; a field of a kind that \<open>setField\<close> does not
  handle (here a map) is left at its zero value; an unexported field that is not tagged
  \<open>-\<close> makes \<open>structToValues\<close> panic.
\<close>

lemma codec_same_column_twice:
  "structToValues (StructVal [(scalarField ''A'' ''x'' String, CString ''1''),
                              (scalarField ''B'' ''x'' String, CString ''2'')])
       = Inr [CString ''1'', CString ''2'']
   \<and> scanRow [CString ''1'', CString ''2''] [CString ''x'', CString ''x'']
         (newElem (StructType [scalarField ''A'' ''x'' String, scalarField ''B'' ''x'' String]))
       = Inr (StructVal [(scalarField ''A'' ''x'' String, CString ''1''),
                         (scalarField ''B'' ''x'' String, CString ''1'')])"
  by (simp add: structToValues_def scanRow_def newElem_def scalarField_def
        columnName_def zeroValue_def setField_def)

lemma codec_other_kind:
  "structToValues
     (StructVal [(\<lparr>Name = ''M'', Tag = [], Kind = Map, Exported = True,
                   OtherZero = COther ''map[]'', JsonSet = (\<lambda>old v. old)\<rparr>, COther ''map[a:1]'')])
       = Inr [COther ''map[a:1]'']
   \<and> scanRow [COther ''map[a:1]''] [CString ''M'']
         (newElem (StructType [\<lparr>Name = ''M'', Tag = [], Kind = Map, Exported = True,
                   OtherZero = COther ''map[]'', JsonSet = (\<lambda>old v. old)\<rparr>]))
       = Inr (StructVal [(\<lparr>Name = ''M'', Tag = [], Kind = Map, Exported = True,
                   OtherZero = COther ''map[]'', JsonSet = (\<lambda>old v. old)\<rparr>, COther ''map[]'')])"
  by (simp add: structToValues_def scanRow_def newElem_def
        columnName_def zeroValue_def setField_def isIntKind_def isUintKind_def isFloatKind_def)

lemma codec_unexported_field:
  "structToValues (StructVal [((scalarField ''secret'' [] String)\<lparr>Exported := False\<rparr>, CString ''x'')])
     = Inl (Panic ''reflect.Value.Interface: cannot return value obtained from unexported field or method'')"
  by (simp add: structToValues_def scalarField_def)

end
